theory Spec2Isabelle
  imports Main
begin

section \<open>JavaScript values as far as the plugin inspects them\<close>

text \<open>
  The plugin \<^verbatim>\<open>$.fn.tappable\<close> looks at its argument with \<^verbatim>\<open>typeof\<close>, reads
  properties of it, tests values for truthiness and calls two of them. Elements and event
  objects are opaque identities. A function value carries what it returns when it is
  applied to one element: the result may depend on the class sets of the page and on
  the rest of the page's world, a number that anything outside the plugin may change.
  Numbers are integers or NaN; a fractional number behaves like any non-zero one in
  everything the plugin does with it.
\<close>

type_synonym elem = nat
type_synonym event = nat

datatype jsval =
    JUndefined
  | JNull
  | JBool bool
  | JNum int
  | JNaN
  | JStr string
  | JFun "(elem \<Rightarrow> string set) \<Rightarrow> nat \<Rightarrow> elem \<Rightarrow> jsval"
  | JObj "(string \<times> jsval) list"

datatype jserror = TypeError

fun typeof_js :: "jsval \<Rightarrow> string" where
  "typeof_js JUndefined = ''undefined''"
| "typeof_js JNull = ''object''"
| "typeof_js (JBool b) = ''boolean''"
| "typeof_js (JNum n) = ''number''"
| "typeof_js JNaN = ''number''"
| "typeof_js (JStr s) = ''string''"
| "typeof_js (JFun f) = ''function''"
| "typeof_js (JObj ps) = ''object''"

fun truthy :: "jsval \<Rightarrow> bool" where
  "truthy JUndefined = False"
| "truthy JNull = False"
| "truthy (JBool b) = b"
| "truthy (JNum n) = (n \<noteq> 0)"
| "truthy JNaN = False"
| "truthy (JStr s) = (s \<noteq> [])"
| "truthy (JFun f) = True"
| "truthy (JObj ps) = True"

text \<open>
  Reading \<^verbatim>\<open>v.k\<close>: an own property of a plain object (a list of its properties,
  each name once), \<^verbatim>\<open>undefined\<close> when the object has none of that name, a TypeError
  on \<^verbatim>\<open>null\<close> and \<^verbatim>\<open>undefined\<close>.
\<close>

fun get_prop :: "jsval \<Rightarrow> string \<Rightarrow> jserror + jsval" where
  "get_prop (JObj ps) k = Inr (case map_of ps k of None \<Rightarrow> JUndefined | Some v \<Rightarrow> v)"
| "get_prop JNull k = Inl TypeError"
| "get_prop JUndefined k = Inl TypeError"
| "get_prop v k = Inr JUndefined"

section \<open>The options switch of \<^verbatim>\<open>$.fn.tappable\<close>\<close>

record config =
  callback :: jsval
  cancelOnMove :: jsval
  onlyIf :: jsval
  touchDelay :: jsval
  selector :: jsval

text \<open>The values of the five variables before the switch.\<close>

definition defaults :: config where
  "defaults =
     \<lparr>callback = JUndefined,
      cancelOnMove = JBool True,
      onlyIf = JFun (\<lambda>cls w el. JBool True),
      touchDelay = JNum 0,
      selector = JUndefined\<rparr>"

text \<open>
  \<^verbatim>\<open>if (typeof options.k != 'undefined') { x = options.k }\<close>, with \<open>x\<close> holding
  \<open>dflt\<close> before.
\<close>

definition option_or :: "jsval \<Rightarrow> string \<Rightarrow> jsval \<Rightarrow> jserror + jsval" where
  "option_or options k dflt =
     (case get_prop options k of
        Inl e \<Rightarrow> Inl e
      | Inr v \<Rightarrow> Inr (if typeof_js v \<noteq> ''undefined'' then v else dflt))"

definition read_options :: "jsval \<Rightarrow> jserror + config" where
  "read_options options =
     (if typeof_js options = ''function'' then Inr (defaults\<lparr>callback := options\<rparr>)
      else if typeof_js options = ''object'' then
        (case get_prop options ''callback'' of
           Inl e \<Rightarrow> Inl e
         | Inr cb \<Rightarrow>
        (case option_or options ''cancelOnMove'' (cancelOnMove defaults) of
           Inl e \<Rightarrow> Inl e
         | Inr cm \<Rightarrow>
        (case option_or options ''onlyIf'' (onlyIf defaults) of
           Inl e \<Rightarrow> Inl e
         | Inr oi \<Rightarrow>
        (case option_or options ''touchDelay'' (touchDelay defaults) of
           Inl e \<Rightarrow> Inl e
         | Inr td \<Rightarrow>
        (case option_or options ''selector'' (selector defaults) of
           Inl e \<Rightarrow> Inl e
         | Inr sel \<Rightarrow>
             Inr \<lparr>callback = cb, cancelOnMove = cm, onlyIf = oi,
                  touchDelay = td, selector = sel\<rparr>)))))
      else Inr defaults)"

section \<open>The page: marker classes, timers and what is observed\<close>

record timer =
  timer_id :: nat
  timer_elem :: elem
  timer_delay :: jsval

text \<open>
  One call of the callback, \<^verbatim>\<open>callback.call(el, event)\<close>: the receiver and the
  argument list.
\<close>

record call =
  receiver :: elem
  arguments :: "event list"

text \<open>
  The class set of every element, the world outside the plugin, the timers that
  \<^verbatim>\<open>window.setTimeout\<close> has pending, and three logs: the calls of the callback, the
  events whose default action was prevented, and the exceptions no handler caught.
  The callback is opaque: a call is logged, what its body does is outside the model.
\<close>

record state =
  classes :: "elem \<Rightarrow> string set"
  world :: nat
  timers :: "timer list"
  next_timer :: nat
  calls :: "call list"
  prevented :: "event list"
  uncaught :: "jserror list"

definition fresh :: state where
  "fresh = \<lparr>classes = (\<lambda>el. {}), world = 0, timers = [], next_timer = 0,
            calls = [], prevented = [], uncaught = []\<rparr>"

text \<open>The host framework's class operations on one element.\<close>

definition hasClass :: "string \<Rightarrow> elem \<Rightarrow> state \<Rightarrow> bool" where
  "hasClass c el s = (c \<in> classes s el)"

definition addClass :: "string \<Rightarrow> elem \<Rightarrow> state \<Rightarrow> state" where
  "addClass c el s = s\<lparr>classes := (classes s)(el := insert c (classes s el))\<rparr>"

definition removeClass :: "string \<Rightarrow> elem \<Rightarrow> state \<Rightarrow> state" where
  "removeClass c el s = s\<lparr>classes := (classes s)(el := classes s el - {c})\<rparr>"

text \<open>
  \<^verbatim>\<open>window.setTimeout(function () {...}, touchDelay)\<close>: the closure captures the
  element; the timer stays pending until the host fires it.
\<close>

definition setTimeout :: "elem \<Rightarrow> jsval \<Rightarrow> state \<Rightarrow> state" where
  "setTimeout el delay s =
     s\<lparr>timers := timers s @ [\<lparr>timer_id = next_timer s, timer_elem = el, timer_delay = delay\<rparr>],
       next_timer := Suc (next_timer s)\<rparr>"

text \<open>\<^verbatim>\<open>f(el)\<close>: a TypeError when \<open>f\<close> is not a function.\<close>

fun apply_fn :: "jsval \<Rightarrow> state \<Rightarrow> elem \<Rightarrow> jserror + jsval" where
  "apply_fn (JFun f) s el = Inr (f (classes s) (world s) el)"
| "apply_fn v s el = Inl TypeError"

definition invoke :: "elem \<Rightarrow> event \<Rightarrow> state \<Rightarrow> state" where
  "invoke el ev s = s\<lparr>calls := calls s @ [\<lparr>receiver = el, arguments = [ev]\<rparr>]\<rparr>"

section \<open>The closures of \<^verbatim>\<open>$.fn.tappable\<close>\<close>

datatype outcome = Returned state | Threw jserror state

definition fireCallback :: "config \<Rightarrow> elem \<Rightarrow> event \<Rightarrow> state \<Rightarrow> outcome" where
  "fireCallback c el ev s =
     (if typeof_js (callback c) = ''function'' then
        (case apply_fn (onlyIf c) s el of
           Inl e \<Rightarrow> Threw e s
         | Inr v \<Rightarrow> if truthy v then Returned (invoke el ev s) else Returned s)
      else Returned s)"

text \<open>The function handed to \<^verbatim>\<open>setTimeout\<close>.\<close>

definition deferred :: "elem \<Rightarrow> state \<Rightarrow> state" where
  "deferred el s = (if hasClass ''touch-started'' el s then addClass ''touched'' el s else s)"

definition on_touchstart :: "config \<Rightarrow> elem \<Rightarrow> event \<Rightarrow> state \<Rightarrow> outcome" where
  "on_touchstart c el ev s =
     (case apply_fn (onlyIf c) s el of
        Inl e \<Rightarrow> Threw e s
      | Inr v \<Rightarrow>
          if truthy v
          then Returned (setTimeout el (touchDelay c) (addClass ''touch-started'' el s))
          else Returned s)"

definition on_touchend :: "config \<Rightarrow> elem \<Rightarrow> event \<Rightarrow> state \<Rightarrow> outcome" where
  "on_touchend c el ev s =
     (if hasClass ''touch-started'' el s
      then fireCallback c el ev
             (removeClass ''touch-started'' el (removeClass ''touched'' el s))
      else Returned s)"

definition on_click_prevent :: "event \<Rightarrow> state \<Rightarrow> outcome" where
  "on_click_prevent ev s = Returned (s\<lparr>prevented := prevented s @ [ev]\<rparr>)"

definition on_touchmove :: "elem \<Rightarrow> state \<Rightarrow> outcome" where
  "on_touchmove el s =
     Returned (removeClass ''touch-started'' el (removeClass ''touched'' el s))"

definition on_click_fallback :: "config \<Rightarrow> elem \<Rightarrow> event \<Rightarrow> state \<Rightarrow> outcome" where
  "on_click_fallback c el ev s =
     (case apply_fn (onlyIf c) s el of
        Inl e \<Rightarrow> Threw e s
      | Inr v \<Rightarrow> if truthy v then Returned (invoke el ev s) else Returned s)"

section \<open>Registration\<close>

datatype evtype = TouchStart | TouchEnd | TouchMove | Click

datatype handler = StartHandler | EndHandler | PreventHandler | MoveHandler | FallbackHandler

text \<open>One \<^verbatim>\<open>this.on(type, selector, fn)\<close>.\<close>

record listener =
  on_type :: evtype
  on_selector :: jsval
  on_handler :: handler

record binding =
  settings :: config
  listeners :: "listener list"

definition listen :: "evtype \<Rightarrow> config \<Rightarrow> handler \<Rightarrow> listener" where
  "listen ty c h = \<lparr>on_type = ty, on_selector = selector c, on_handler = h\<rparr>"

text \<open>
  \<^verbatim>\<open>$.fn.tappable\<close> with the module's \<^verbatim>\<open>touchSupported\<close> as a parameter. The
  result is the configuration the closures capture and the listeners registered on the
  collection, in the order of the \<^verbatim>\<open>on\<close> calls.
\<close>

definition tappable :: "bool \<Rightarrow> jsval \<Rightarrow> jserror + binding" where
  "tappable touchSupported options =
     (case read_options options of
        Inl e \<Rightarrow> Inl e
      | Inr c \<Rightarrow>
          Inr \<lparr>settings = c,
               listeners =
                 (if touchSupported then
                    [listen TouchStart c StartHandler,
                     listen TouchEnd c EndHandler,
                     listen Click c PreventHandler]
                    @ (if truthy (cancelOnMove c) then [listen TouchMove c MoveHandler] else [])
                  else if typeof_js (callback c) = ''function'' then
                    [listen Click c FallbackHandler]
                  else [])\<rparr>)"

section \<open>Events\<close>

fun run_handler :: "config \<Rightarrow> handler \<Rightarrow> elem \<Rightarrow> event \<Rightarrow> state \<Rightarrow> outcome" where
  "run_handler c StartHandler el ev s = on_touchstart c el ev s"
| "run_handler c EndHandler el ev s = on_touchend c el ev s"
| "run_handler c PreventHandler el ev s = on_click_prevent ev s"
| "run_handler c MoveHandler el ev s = on_touchmove el s"
| "run_handler c FallbackHandler el ev s = on_click_fallback c el ev s"

text \<open>
  The host framework delivers an event of type \<open>ty\<close> to the listeners of that type, in
  the order of their registration, with \<^verbatim>\<open>this\<close> the element \<open>el\<close> it resolved (a bound
  element, or a descendant matching the selector). A handler that throws ends the
  delivery.
\<close>

fun dispatch :: "config \<Rightarrow> listener list \<Rightarrow> evtype \<Rightarrow> elem \<Rightarrow> event \<Rightarrow> state \<Rightarrow> outcome" where
  "dispatch c [] ty el ev s = Returned s"
| "dispatch c (l # ls) ty el ev s =
     (if on_type l = ty then
        (case run_handler c (on_handler l) el ev s of
           Returned s' \<Rightarrow> dispatch c ls ty el ev s'
         | Threw e s' \<Rightarrow> Threw e s')
      else dispatch c ls ty el ev s)"

text \<open>
  What happens on the page: the host delivers an event, fires a pending timer (it
  chooses when; a timer fires once), or something outside the plugin changes the world.
\<close>

datatype input = Dom evtype elem event | Timeout nat | External nat

text \<open>
  An exception that leaves a handler is reported by the host and the page lives on, in
  the state the handler had reached.
\<close>

fun report :: "outcome \<Rightarrow> state" where
  "report (Returned s) = s"
| "report (Threw e s) = s\<lparr>uncaught := uncaught s @ [e]\<rparr>"

fun step :: "binding \<Rightarrow> input \<Rightarrow> state \<Rightarrow> state" where
  "step b (Dom ty el ev) s = report (dispatch (settings b) (listeners b) ty el ev s)"
| "step b (Timeout n) s =
     (case find (\<lambda>t. timer_id t = n) (timers s) of
        None \<Rightarrow> s
      | Some t \<Rightarrow> deferred (timer_elem t) (s\<lparr>timers := filter (\<lambda>t. timer_id t \<noteq> n) (timers s)\<rparr>))"
| "step b (External w) s = s\<lparr>world := w\<rparr>"

fun run :: "binding \<Rightarrow> input list \<Rightarrow> state \<Rightarrow> state" where
  "run b [] s = s"
| "run b (i # ins) s = run b ins (step b i s)"

section \<open>Notions the properties are stated with\<close>

text \<open>\<^verbatim>\<open>onlyIf(el)\<close> returns a truthy value in state \<open>s\<close>.\<close>

definition onlyIf_passes :: "config \<Rightarrow> state \<Rightarrow> elem \<Rightarrow> bool" where
  "onlyIf_passes c s el =
     (case apply_fn (onlyIf c) s el of Inl e \<Rightarrow> False | Inr v \<Rightarrow> truthy v)"

text \<open>The element carries neither marker class.\<close>

definition unmarked :: "elem \<Rightarrow> state \<Rightarrow> bool" where
  "unmarked el s = (\<not> hasClass ''touch-started'' el s \<and> \<not> hasClass ''touched'' el s)"

text \<open>Timer firings and changes of the world: what may happen between two events.\<close>

fun background :: "input \<Rightarrow> bool" where
  "background (Dom ty el ev) = False"
| "background (Timeout n) = True"
| "background (External w) = True"



text \<open>Bind with \<open>options\<close>, then let the inputs happen on a fresh page.\<close>

definition play :: "bool \<Rightarrow> jsval \<Rightarrow> input list \<Rightarrow> jserror + state" where
  "play touchSupported options ins =
     (case tappable touchSupported options of
        Inl e \<Rightarrow> Inl e
      | Inr b \<Rightarrow> Inr (run b ins fresh))"




section \<open>Bindings and single steps\<close>

lemma run_append: "run b (xs @ ys) s = run b ys (run b xs s)"
  by (induction xs arbitrary: s) simp_all

lemma tappable_touch:
  "tappable True opts = Inr b \<Longrightarrow>
   listeners b =
     [listen TouchStart (settings b) StartHandler,
      listen TouchEnd (settings b) EndHandler,
      listen Click (settings b) PreventHandler]
     @ (if truthy (cancelOnMove (settings b))
        then [listen TouchMove (settings b) MoveHandler] else [])"
  by (auto simp: tappable_def split: sum.splits)

lemma tappable_fallback:
  "tappable False opts = Inr b \<Longrightarrow>
   listeners b =
     (if typeof_js (callback (settings b)) = ''function''
      then [listen Click (settings b) FallbackHandler] else [])"
  by (auto simp: tappable_def split: sum.splits)

lemma step_touchstart:
  "tappable True opts = Inr b \<Longrightarrow>
   step b (Dom TouchStart el ev) s = report (on_touchstart (settings b) el ev s)"
  by (cases "on_touchstart (settings b) el ev s")
     (simp_all add: tappable_touch listen_def)

lemma step_touchend:
  "tappable True opts = Inr b \<Longrightarrow>
   step b (Dom TouchEnd el ev) s = report (on_touchend (settings b) el ev s)"
  by (cases "on_touchend (settings b) el ev s")
     (simp_all add: tappable_touch listen_def)

lemma step_click_touch:
  "tappable True opts = Inr b \<Longrightarrow>
   step b (Dom Click el ev) s = s\<lparr>prevented := prevented s @ [ev]\<rparr>"
  by (simp add: tappable_touch listen_def on_click_prevent_def)

lemma step_touchmove:
  "tappable True opts = Inr b \<Longrightarrow>
   step b (Dom TouchMove el ev) s =
     (if truthy (cancelOnMove (settings b))
      then removeClass ''touch-started'' el (removeClass ''touched'' el s) else s)"
  by (simp add: tappable_touch listen_def on_touchmove_def)

lemma step_fallback:
  "tappable False opts = Inr b \<Longrightarrow>
   step b (Dom ty el ev) s =
     (if ty = Click \<and> typeof_js (callback (settings b)) = ''function''
      then report (on_click_fallback (settings b) el ev s) else s)"
  by (cases "on_click_fallback (settings b) el ev s")
     (simp_all add: tappable_fallback listen_def)

declare step.simps(1) [simp del]

lemmas class_ops = hasClass_def addClass_def removeClass_def setTimeout_def invoke_def
  deferred_def

lemma touchstart_passes:
  "onlyIf_passes c s el \<Longrightarrow>
   on_touchstart c el ev s =
     Returned (setTimeout el (touchDelay c) (addClass ''touch-started'' el s))"
  by (simp add: onlyIf_passes_def on_touchstart_def split: sum.splits)

lemma fire_passes:
  "typeof_js (callback c) = ''function'' \<Longrightarrow> onlyIf_passes c s el \<Longrightarrow>
   fireCallback c el ev s = Returned (invoke el ev s)"
  by (simp add: onlyIf_passes_def fireCallback_def split: sum.splits)

lemma fire_blocked:
  "\<not> (typeof_js (callback c) = ''function'' \<and> onlyIf_passes c s el) \<Longrightarrow>
   fireCallback c el ev s = Returned s \<or> fireCallback c el ev s = Threw TypeError s"
  by (cases "apply_fn (onlyIf c) s el"; cases "onlyIf c")
     (auto simp add: onlyIf_passes_def fireCallback_def)

lemma calls_touchstart: "calls (report (on_touchstart c el ev s)) = calls s"
  by (simp add: on_touchstart_def class_ops split: sum.splits)

section \<open>Timer firings and changes of the world\<close>

lemma background_calls: "background i \<Longrightarrow> calls (step b i s) = calls s"
  by (cases i) (simp_all add: class_ops split: option.splits)

lemma background_started:
  "background i \<Longrightarrow>
   hasClass ''touch-started'' el (step b i s) = hasClass ''touch-started'' el s"
  by (cases i) (simp_all add: class_ops split: option.splits)


lemma background_unmarked: "background i \<Longrightarrow> unmarked el s \<Longrightarrow> unmarked el (step b i s)"
  by (cases i) (auto simp add: unmarked_def class_ops split: option.splits)

lemma backgrounds_calls: "list_all background bg \<Longrightarrow> calls (run b bg s) = calls s"
  by (induction bg arbitrary: s) (simp_all add: background_calls)

lemma backgrounds_started:
  "list_all background bg \<Longrightarrow>
   hasClass ''touch-started'' el (run b bg s) = hasClass ''touch-started'' el s"
  by (induction bg arbitrary: s) (simp_all add: background_started)


lemma backgrounds_unmarked:
  "list_all background bg \<Longrightarrow> unmarked el s \<Longrightarrow> unmarked el (run b bg s)"
  by (induction bg arbitrary: s) (simp_all add: background_unmarked)

lemma touchmove_cancels:
  assumes "tappable True opts = Inr b" "truthy (cancelOnMove (settings b))"
  shows "unmarked el (step b (Dom TouchMove el ev) s)"
    and "calls (step b (Dom TouchMove el ev) s) = calls s"
  using assms by (simp_all add: step_touchmove unmarked_def class_ops)

lemma touchend_unmarked:
  assumes "tappable True opts = Inr b" "unmarked el s"
  shows "step b (Dom TouchEnd el ev) s = s"
  using assms by (simp add: step_touchend unmarked_def on_touchend_def)

lemma calls_fire:
  "calls (report (fireCallback c el ev t)) =
     (if typeof_js (callback c) = ''function'' \<and> onlyIf_passes c t el
      then calls t @ [\<lparr>receiver = el, arguments = [ev]\<rparr>] else calls t)"
proof (cases "typeof_js (callback c) = ''function'' \<and> onlyIf_passes c t el")
  case True
  then show ?thesis by (simp add: fire_passes invoke_def)
next
  case False
  from fire_blocked [OF this, of ev] show ?thesis using False by auto
qed

lemma calls_touchend:
  assumes "tappable True opts = Inr b" and "hasClass ''touch-started'' el s"
  shows "calls (step b (Dom TouchEnd el ev) s) =
           (if typeof_js (callback (settings b)) = ''function''
               \<and> onlyIf_passes (settings b)
                    (removeClass ''touch-started'' el (removeClass ''touched'' el s)) el
            then calls s @ [\<lparr>receiver = el, arguments = [ev]\<rparr>] else calls s)"
proof -
  have "calls (removeClass ''touch-started'' el (removeClass ''touched'' el s)) = calls s"
    by (simp add: removeClass_def)
  with calls_fire [of "settings b" el ev
      "removeClass ''touch-started'' el (removeClass ''touched'' el s)"] assms
  show ?thesis by (simp add: step_touchend on_touchend_def)
qed

lemma step_fallback_touch:
  "tappable False opts = Inr b \<Longrightarrow> ty \<noteq> Click \<Longrightarrow> step b (Dom ty el ev) s = s"
  by (simp add: step_fallback)

section \<open>When the callback fires\<close>

text \<open>
  C1. When a tap completes (a touch-end delivered for an element that carries
  \<^verbatim>\<open>touch-started\<close>), the callback is called if and only if it is a function and
  \<^verbatim>\<open>onlyIf(el)\<close> returns a truthy value at that moment, in the state with both
  marker classes already removed; the same holds of \<^verbatim>\<open>fireCallback\<close> in any
  state. The call logged is \<^verbatim>\<open>callback.call(el, event)\<close>: the element is the receiver
  and the event that triggered the firing is the argument.
\<close>

theorem callback_fires_iff:
  assumes "tappable True opts = Inr b" and "hasClass ''touch-started'' el s"
  shows "calls (report (fireCallback (settings b) el ev s)) =
           (if typeof_js (callback (settings b)) = ''function''
               \<and> onlyIf_passes (settings b) s el
            then calls s @ [\<lparr>receiver = el, arguments = [ev]\<rparr>] else calls s)
       \<and> calls (step b (Dom TouchEnd el ev) s) =
           (if typeof_js (callback (settings b)) = ''function''
               \<and> onlyIf_passes (settings b)
                    (removeClass ''touch-started'' el (removeClass ''touched'' el s)) el
            then calls s @ [\<lparr>receiver = el, arguments = [ev]\<rparr>] else calls s)"
  using calls_fire [of "settings b" el ev s] calls_touchend [OF assms, of ev] by simp

text \<open>
  Two taps on element 7 with an \<^verbatim>\<open>onlyIf\<close> that reads the world: the first fires;
  during the second the world changes after the touch-begin, and the release does not
  fire.
\<close>

theorem callback_fires_iff_witness:
  "map_sum id calls
     (play True (JObj [(''callback'', JFun (\<lambda>cls w el. JUndefined)),
                       (''onlyIf'', JFun (\<lambda>cls w el. JBool (w = 0)))])
        [Dom TouchStart 7 1, Dom TouchEnd 7 2,
         Dom TouchStart 7 3, External 1, Dom TouchEnd 7 4])
   = Inr [\<lparr>receiver = 7, arguments = [2]\<rparr>]"
proof -
  define opts where "opts = JObj [(''callback'', JFun (\<lambda>cls w el. JUndefined)),
                       (''onlyIf'', JFun (\<lambda>cls (w::nat) el. JBool (w = 0)))]"
  obtain b where b: "tappable True opts = Inr b"
    by (simp add: opts_def tappable_def read_options_def option_or_def)
  have c: "typeof_js (callback (settings b)) = ''function''"
    and p: "onlyIf_passes (settings b) t el = (world t = 0)" for t el
    using b by (auto simp add: opts_def tappable_def read_options_def option_or_def
        onlyIf_passes_def)
  define s1 where "s1 = step b (Dom TouchStart 7 1) fresh"
  define s2 where "s2 = step b (Dom TouchEnd 7 2) s1"
  define s3 where "s3 = step b (External 1) (step b (Dom TouchStart 7 3) s2)"
  have w0: "world fresh = 0" by (simp add: fresh_def)
  have s1: "s1 = setTimeout 7 (touchDelay (settings b)) (addClass ''touch-started'' 7 fresh)"
    by (simp add: s1_def step_touchstart [OF b] touchstart_passes p w0)
  have h1: "hasClass ''touch-started'' 7 s1" and c1: "calls s1 = []" and w1: "world s1 = 0"
    by (simp_all add: s1 class_ops fresh_def)
  have c2: "calls s2 = [\<lparr>receiver = 7, arguments = [2]\<rparr>]"
    using callback_fires_iff [OF b h1, of 2] by (simp add: s2_def c p c1 w1 class_ops)
  have w2: "world s2 = 0"
    using h1 by (simp add: s2_def step_touchend [OF b] on_touchend_def fire_passes c p
        class_ops w1)
  have s3: "s3 = (setTimeout 7 (touchDelay (settings b)) (addClass ''touch-started'' 7 s2))
                   \<lparr>world := 1\<rparr>"
    by (simp add: s3_def step_touchstart [OF b] touchstart_passes p w2)
  have h3: "hasClass ''touch-started'' 7 s3" and c3: "calls s3 = calls s2"
    and w3: "world s3 = 1"
    by (simp_all add: s3 class_ops)
  have "calls (step b (Dom TouchEnd 7 4) s3) = [\<lparr>receiver = 7, arguments = [2]\<rparr>]"
    using callback_fires_iff [OF b h3, of 4] by (simp add: c p c2 c3 w3 class_ops)
  then show ?thesis
    using b by (simp add: play_def opts_def [symmetric] s1_def s2_def s3_def)
qed

section \<open>Touch-begin, touch-move, touch-end\<close>

text \<open>
  C2. With a truthy \<^verbatim>\<open>cancelOnMove\<close>, a touch-begin, a touch-move and a touch-end
  on one element never call the callback and leave the element with neither marker
  class, whatever the state before, the other options and the timers that fire in
  between. Touch events are delivered on touch-capable runtimes; where the binding was
  made without touch support it has no touch listener and the same holds of an element
  that carried no marker class before.
\<close>

theorem cancel_on_move:
  assumes b: "tappable touchSupported opts = Inr b"
    and cm: "truthy (cancelOnMove (settings b))"
    and st: "touchSupported \<or> unmarked el s"
    and bg: "list_all background bg1" "list_all background bg2" "list_all background bg3"
  shows "calls (run b (Dom TouchStart el e1 # bg1 @ Dom TouchMove el e2 # bg2
                        @ Dom TouchEnd el e3 # bg3) s) = calls s
       \<and> unmarked el (run b (Dom TouchStart el e1 # bg1 @ Dom TouchMove el e2 # bg2
                        @ Dom TouchEnd el e3 # bg3) s)"
proof (cases touchSupported)
  case True
  with b have b: "tappable True opts = Inr b" by simp
  define s1 where "s1 = run b bg1 (step b (Dom TouchStart el e1) s)"
  define s2 where "s2 = run b bg2 (step b (Dom TouchMove el e2) s1)"
  have c1: "calls s1 = calls s"
    using bg(1) by (simp add: s1_def backgrounds_calls step_touchstart [OF b] calls_touchstart)
  have c2: "calls s2 = calls s"
    using bg(2) c1 by (simp add: s2_def backgrounds_calls touchmove_cancels(2) [OF b cm])
  have u2: "unmarked el s2"
    unfolding s2_def using bg(2) by (intro backgrounds_unmarked touchmove_cancels(1) [OF b cm])
  have fin: "run b (Dom TouchStart el e1 # bg1 @ Dom TouchMove el e2 # bg2
                        @ Dom TouchEnd el e3 # bg3) s = run b bg3 s2"
    by (simp add: run_append s1_def s2_def touchend_unmarked [OF b u2 [unfolded s2_def s1_def]])
  show ?thesis
    unfolding fin using bg(3) c2 u2 by (simp add: backgrounds_calls backgrounds_unmarked)
next
  case False
  with b st have b: "tappable False opts = Inr b" and u: "unmarked el s" by simp_all
  have fin: "run b (Dom TouchStart el e1 # bg1 @ Dom TouchMove el e2 # bg2
                        @ Dom TouchEnd el e3 # bg3) s = run b bg3 (run b bg2 (run b bg1 s))"
    by (simp add: run_append step_fallback_touch [OF b])
  show ?thesis
    unfolding fin using bg u by (simp add: backgrounds_calls backgrounds_unmarked)
qed

text \<open>
  A binding with the default \<^verbatim>\<open>cancelOnMove\<close>: the timer of the touch fires before
  the move and applies \<^verbatim>\<open>touched\<close>; the move clears it and the release calls nothing.
\<close>

theorem cancel_on_move_witness:
  "map_sum id (\<lambda>s. (calls s, unmarked 3 s))
     (play True (JObj [(''callback'', JFun (\<lambda>cls w el. JUndefined)),
                       (''touchDelay'', JNum 150)])
        [Dom TouchStart 3 1, Timeout 0, Dom TouchMove 3 2, External 5, Dom TouchEnd 3 4])
   = Inr ([], True)"
proof -
  define opts where "opts = JObj [(''callback'', JFun (\<lambda>cls w el. JUndefined)),
                       (''touchDelay'', JNum 150)]"
  obtain b where b: "tappable True opts = Inr b"
    by (simp add: opts_def tappable_def read_options_def option_or_def)
  have cm: "truthy (cancelOnMove (settings b))"
    using b by (auto simp add: opts_def tappable_def read_options_def option_or_def
        defaults_def)
  have "calls (run b (Dom TouchStart 3 1 # [Timeout 0] @ Dom TouchMove 3 2 # [External 5]
                        @ Dom TouchEnd 3 4 # []) fresh) = calls fresh
       \<and> unmarked 3 (run b (Dom TouchStart 3 1 # [Timeout 0] @ Dom TouchMove 3 2
                        # [External 5] @ Dom TouchEnd 3 4 # []) fresh)"
    by (rule cancel_on_move [OF b cm]) simp_all
  then show ?thesis
    using b by (simp add: play_def opts_def [symmetric] fresh_def)
qed

text \<open>
  C3. With a falsy \<^verbatim>\<open>cancelOnMove\<close>, a callback that is a function and an
  \<^verbatim>\<open>onlyIf\<close> that passes for the element, a touch-begin, a touch-move and a touch-end
  call the callback exactly once, with the touch-end event: no listener for touch-move is
  registered, and the element still carries \<^verbatim>\<open>touch-started\<close> after the move.
\<close>

theorem move_ignored:
  assumes b: "tappable True opts = Inr b"
    and cm: "\<not> truthy (cancelOnMove (settings b))"
    and cb: "typeof_js (callback (settings b)) = ''function''"
    and oi: "\<And>t. onlyIf_passes (settings b) t el"
    and bg: "list_all background bg1" "list_all background bg2" "list_all background bg3"
  shows "calls (run b (Dom TouchStart el e1 # bg1 @ Dom TouchMove el e2 # bg2
                        @ Dom TouchEnd el e3 # bg3) s)
           = calls s @ [\<lparr>receiver = el, arguments = [e3]\<rparr>]
       \<and> list_all (\<lambda>l. on_type l \<noteq> TouchMove) (listeners b)
       \<and> hasClass ''touch-started'' el
           (run b (Dom TouchStart el e1 # bg1 @ [Dom TouchMove el e2]) s)"
proof -
  define s1 where "s1 = run b bg1 (step b (Dom TouchStart el e1) s)"
  define s2 where "s2 = run b bg2 (step b (Dom TouchMove el e2) s1)"
  have start: "step b (Dom TouchStart el e1) s
                 = setTimeout el (touchDelay (settings b)) (addClass ''touch-started'' el s)"
    by (simp add: step_touchstart [OF b] touchstart_passes oi)
  have h0: "hasClass ''touch-started'' el (step b (Dom TouchStart el e1) s)"
    and c0: "calls (step b (Dom TouchStart el e1) s) = calls s"
    by (simp_all add: start class_ops)
  have h1: "hasClass ''touch-started'' el s1" and c1: "calls s1 = calls s"
    using bg(1) h0 c0 by (simp_all add: s1_def backgrounds_started backgrounds_calls)
  have mv: "step b (Dom TouchMove el e2) s1 = s1"
    using cm by (simp add: step_touchmove [OF b])
  have h2: "hasClass ''touch-started'' el s2" and c2: "calls s2 = calls s"
    using bg(2) h1 c1 by (simp_all add: s2_def mv backgrounds_started backgrounds_calls)
  have "calls (step b (Dom TouchEnd el e3) s2) = calls s @ [\<lparr>receiver = el, arguments = [e3]\<rparr>]"
    using calls_touchend [OF b h2, of e3] by (simp add: cb oi c2)
  then have fin: "calls (run b (Dom TouchStart el e1 # bg1 @ Dom TouchMove el e2 # bg2
                        @ Dom TouchEnd el e3 # bg3) s)
           = calls s @ [\<lparr>receiver = el, arguments = [e3]\<rparr>]"
    using bg(3) by (simp add: run_append backgrounds_calls s1_def s2_def)
  have nl: "list_all (\<lambda>l. on_type l \<noteq> TouchMove) (listeners b)"
    using cm by (simp add: tappable_touch [OF b] listen_def)
  have "hasClass ''touch-started'' el
           (run b (Dom TouchStart el e1 # bg1 @ [Dom TouchMove el e2]) s)"
    using h1 mv by (simp add: run_append s1_def)
  with fin nl show ?thesis by simp
qed

text \<open>
  \<^verbatim>\<open>{callback: f, cancelOnMove: false}\<close>: one call, for the release.
\<close>

theorem move_ignored_witness:
  "map_sum id calls
     (play True (JObj [(''callback'', JFun (\<lambda>cls w el. JUndefined)),
                       (''cancelOnMove'', JBool False)])
        [Dom TouchStart 3 1, Timeout 0, Dom TouchMove 3 2, Dom TouchEnd 3 4])
   = Inr [\<lparr>receiver = 3, arguments = [4]\<rparr>]"
proof -
  define opts where "opts = JObj [(''callback'', JFun (\<lambda>cls w el. JUndefined)),
                       (''cancelOnMove'', JBool False)]"
  obtain b where b: "tappable True opts = Inr b"
    by (simp add: opts_def tappable_def read_options_def option_or_def)
  have cm: "\<not> truthy (cancelOnMove (settings b))"
    and cb: "typeof_js (callback (settings b)) = ''function''"
    and oi: "onlyIf_passes (settings b) t 3" for t
    using b by (auto simp add: opts_def tappable_def read_options_def option_or_def
        defaults_def onlyIf_passes_def)
  have "calls (run b (Dom TouchStart 3 1 # [Timeout 0] @ Dom TouchMove 3 2 # []
                        @ Dom TouchEnd 3 4 # []) fresh)
           = calls fresh @ [\<lparr>receiver = 3, arguments = [4]\<rparr>]"
    using move_ignored [OF b cm cb oi, of "[Timeout 0]" "[]" "[]" 1 2 4 fresh] by simp
  then show ?thesis
    using b by (simp add: play_def opts_def [symmetric] fresh_def)
qed

section \<open>Clicks on the touch-capable path\<close>

text \<open>
  C9. On the touch-capable path a click delivered to the binding has its default action
  prevented and nothing else happens, whatever the options, the element and the state.
\<close>

theorem click_default_suppressed:
  assumes "tappable True opts = Inr b"
  shows "step b (Dom Click el ev) s = s\<lparr>prevented := prevented s @ [ev]\<rparr>"
  using assms by (rule step_click_touch)

text \<open>
  An \<^verbatim>\<open>onlyIf\<close> that never passes and no callback: both clicks are prevented.
\<close>

theorem click_default_suppressed_witness:
  "map_sum id prevented
     (play True (JObj [(''onlyIf'', JFun (\<lambda>cls w el. JBool False))])
        [Dom TouchStart 2 1, Dom Click 2 8, Dom Click 5 9])
   = Inr [8, 9]"
proof -
  define opts where "opts = JObj [(''onlyIf'', JFun (\<lambda>cls (w::nat) (el::nat). JBool False))]"
  obtain b where b: "tappable True opts = Inr b"
    by (simp add: opts_def tappable_def read_options_def option_or_def)
  have ap: "apply_fn (onlyIf (settings b)) t el = Inr (JBool False)" for t el
    using b by (auto simp add: opts_def tappable_def read_options_def option_or_def)
  have s1: "step b (Dom TouchStart 2 1) fresh = fresh"
    by (simp add: step_touchstart [OF b] on_touchstart_def ap)
  have "run b [Dom TouchStart 2 1, Dom Click 2 8, Dom Click 5 9] fresh
          = fresh\<lparr>prevented := prevented fresh @ [8]\<rparr>
              \<lparr>prevented := prevented (fresh\<lparr>prevented := prevented fresh @ [8]\<rparr>) @ [9]\<rparr>"
    by (simp only: run.simps s1 click_default_suppressed [OF b])
  with b show ?thesis
    by (simp add: play_def opts_def [symmetric] fresh_def)
qed

section \<open>The fallback path\<close>

lemma fallback_quiet:
  assumes b: "tappable False opts = Inr b"
  shows "classes (step b (Dom ty el ev) s) = classes s"
    and "timers (step b (Dom ty el ev) s) = timers s"
  by (cases "apply_fn (onlyIf (settings b)) s el";
      simp add: step_fallback [OF b] on_click_fallback_def invoke_def)+

lemma fallback_step_idle:
  assumes b: "tappable False opts = Inr b" and t: "timers s = []"
  shows "timers (step b i s) = [] \<and> classes (step b i s) = classes s"
  using t by (cases i) (simp_all add: fallback_quiet [OF b])

lemma fallback_run_idle:
  assumes b: "tappable False opts = Inr b"
  shows "timers s = [] \<Longrightarrow> classes (run b ins s) = classes s"
proof (induction ins arbitrary: s)
  case Nil
  then show ?case by simp
next
  case (Cons i ins)
  from fallback_step_idle [OF b Cons.prems, of i] Cons.IH [of "step b i s"]
  show ?case by simp
qed

text \<open>
  C8. Without touch support and with a callback that is a function, the binding
  registers exactly one listener, for click. A click on an element calls the callback
  once, as \<^verbatim>\<open>callback.call(el, event)\<close>, if \<^verbatim>\<open>onlyIf(el)\<close> passes at that moment,
  and not otherwise. No event changes any class, and as the binding schedules no timer
  the classes stay as they are over any sequence of inputs.
\<close>

theorem fallback_click:
  assumes b: "tappable False opts = Inr b"
    and cb: "typeof_js (callback (settings b)) = ''function''"
  shows "listeners b = [listen Click (settings b) FallbackHandler]
       \<and> calls (step b (Dom Click el ev) s) =
           (if onlyIf_passes (settings b) s el
            then calls s @ [\<lparr>receiver = el, arguments = [ev]\<rparr>] else calls s)
       \<and> classes (step b (Dom ty el ev) s) = classes s
       \<and> (timers s = [] \<longrightarrow> classes (run b ins s) = classes s)"
proof -
  have "calls (step b (Dom Click el ev) s) =
           (if onlyIf_passes (settings b) s el
            then calls s @ [\<lparr>receiver = el, arguments = [ev]\<rparr>] else calls s)"
    by (cases "apply_fn (onlyIf (settings b)) s el")
       (simp_all add: step_fallback [OF b] cb on_click_fallback_def onlyIf_passes_def
          invoke_def)
  then show ?thesis
    using cb by (simp add: tappable_fallback [OF b] fallback_quiet(1) [OF b]
        fallback_run_idle [OF b])
qed

text \<open>
  A click on element 4, for which \<^verbatim>\<open>onlyIf\<close> passes.
\<close>

theorem fallback_click_witness:
  "map_sum id (\<lambda>s. (calls s, classes s 4))
     (play False (JObj [(''callback'', JFun (\<lambda>cls w el. JUndefined)),
                        (''onlyIf'', JFun (\<lambda>cls w el. JBool (el = 4)))])
        [Dom Click 4 1])
   = Inr ([\<lparr>receiver = 4, arguments = [1]\<rparr>], {})"
proof -
  define opts where "opts = JObj [(''callback'', JFun (\<lambda>cls w el. JUndefined)),
                        (''onlyIf'', JFun (\<lambda>cls (w::nat) el. JBool (el = 4)))]"
  obtain b where b: "tappable False opts = Inr b"
    by (simp add: opts_def tappable_def read_options_def option_or_def)
  have cb: "typeof_js (callback (settings b)) = ''function''"
    and p: "onlyIf_passes (settings b) t el = (el = 4)" for t el
    using b by (auto simp add: opts_def tappable_def read_options_def option_or_def
        onlyIf_passes_def)
  show ?thesis
    using b fallback_click [OF b cb, of 4 1 fresh Click "[]"]
    by (simp add: play_def opts_def [symmetric] p) (simp add: fresh_def)
qed

section \<open>Options that are neither a function nor an object\<close>

lemma read_options_other:
  assumes "typeof_js v \<noteq> ''function''" "typeof_js v \<noteq> ''object''"
  shows "read_options v = Inr defaults"
  using assms by (simp add: read_options_def)

lemma read_options_empty: "read_options (JObj []) = Inr defaults"
  by (simp add: read_options_def option_or_def defaults_def)

text \<open>
  C10, as amended. An options value whose \<^verbatim>\<open>typeof\<close> is neither \<^verbatim>\<open>'function'\<close> nor
  \<^verbatim>\<open>'object'\<close> (undefined, a boolean, a number, a string) binds exactly as the empty
  object does: the callback stays undefined, \<^verbatim>\<open>cancelOnMove\<close> is true, \<^verbatim>\<open>touchDelay\<close>
  is 0, \<^verbatim>\<open>onlyIf\<close> is the function that always returns true and the selector is
  undefined. With touch support the four touch listeners are registered, a touch-begin
  marks the element, the release clears it and calls nothing; without touch support no
  listener is registered.
\<close>

theorem other_options_as_empty:
  assumes "typeof_js v \<noteq> ''function''" and "typeof_js v \<noteq> ''object''"
  shows "tappable touchSupported v = tappable touchSupported (JObj [])
       \<and> read_options v =
           Inr \<lparr>callback = JUndefined, cancelOnMove = JBool True,
                onlyIf = JFun (\<lambda>cls w el. JBool True), touchDelay = JNum 0,
                selector = JUndefined\<rparr>
       \<and> map_sum id listeners (tappable True v) =
           Inr [\<lparr>on_type = TouchStart, on_selector = JUndefined, on_handler = StartHandler\<rparr>,
                \<lparr>on_type = TouchEnd, on_selector = JUndefined, on_handler = EndHandler\<rparr>,
                \<lparr>on_type = Click, on_selector = JUndefined, on_handler = PreventHandler\<rparr>,
                \<lparr>on_type = TouchMove, on_selector = JUndefined, on_handler = MoveHandler\<rparr>]
       \<and> map_sum id listeners (tappable False v) = Inr []
       \<and> (tappable True v = Inr b \<longrightarrow>
            hasClass ''touch-started'' el (step b (Dom TouchStart el e1) s)
            \<and> unmarked el (run b [Dom TouchStart el e1, Dom TouchEnd el e2] s)
            \<and> calls (run b [Dom TouchStart el e1, Dom TouchEnd el e2] s) = calls s)"
proof -
  have ro: "read_options v = Inr defaults"
    using assms by (rule read_options_other)
  have t1: "tappable touchSupported v = tappable touchSupported (JObj [])"
    by (simp add: tappable_def ro read_options_empty)
  have t2: "map_sum id listeners (tappable True v) =
           Inr [\<lparr>on_type = TouchStart, on_selector = JUndefined, on_handler = StartHandler\<rparr>,
                \<lparr>on_type = TouchEnd, on_selector = JUndefined, on_handler = EndHandler\<rparr>,
                \<lparr>on_type = Click, on_selector = JUndefined, on_handler = PreventHandler\<rparr>,
                \<lparr>on_type = TouchMove, on_selector = JUndefined, on_handler = MoveHandler\<rparr>]"
    and t3: "map_sum id listeners (tappable False v) = Inr []"
    by (simp_all add: tappable_def ro defaults_def listen_def)
  have t4: "hasClass ''touch-started'' el (step b (Dom TouchStart el e1) s)
            \<and> unmarked el (run b [Dom TouchStart el e1, Dom TouchEnd el e2] s)
            \<and> calls (run b [Dom TouchStart el e1, Dom TouchEnd el e2] s) = calls s"
    if b: "tappable True v = Inr b"
  proof -
    have sb: "settings b = defaults"
      using b by (auto simp add: tappable_def ro)
    have p: "onlyIf_passes (settings b) t el" for t
      by (simp add: sb defaults_def onlyIf_passes_def)
    have nc: "typeof_js (callback (settings b)) \<noteq> ''function''"
      by (simp add: sb defaults_def)
    have s1: "step b (Dom TouchStart el e1) s
                = setTimeout el (touchDelay (settings b)) (addClass ''touch-started'' el s)"
      by (simp add: step_touchstart [OF b] touchstart_passes p)
    have h1: "hasClass ''touch-started'' el (step b (Dom TouchStart el e1) s)"
      and c1: "calls (step b (Dom TouchStart el e1) s) = calls s"
      by (simp_all add: s1 class_ops)
    have s2: "step b (Dom TouchEnd el e2) (step b (Dom TouchStart el e1) s)
                = removeClass ''touch-started'' el
                    (removeClass ''touched'' el (step b (Dom TouchStart el e1) s))"
      using h1 nc by (simp add: step_touchend [OF b] on_touchend_def fireCallback_def)
    have "unmarked el (run b [Dom TouchStart el e1, Dom TouchEnd el e2] s)"
      and "calls (run b [Dom TouchStart el e1, Dom TouchEnd el e2] s) = calls s"
      using c1 by (simp_all add: s2 unmarked_def hasClass_def removeClass_def)
    with h1 show ?thesis by simp
  qed
  from ro t1 t2 t3 t4 show ?thesis by (simp add: defaults_def)
qed

text \<open>
  A string binds as the empty object; with a number as options a touch-begin on
  element 6 marks it; without touch support \<^verbatim>\<open>undefined\<close> registers nothing.
\<close>

theorem other_options_as_empty_witness:
  "tappable True (JStr ''tap'') = tappable True (JObj [])
   \<and> map_sum id (\<lambda>s. (classes s 6, calls s))
       (play True (JNum 5) [Dom TouchStart 6 1]) = Inr ({''touch-started''}, [])
   \<and> map_sum id listeners (tappable False JUndefined) = Inr []"
proof -
  obtain b where b: "tappable True (JNum 5) = Inr b"
    by (simp add: tappable_def read_options_def)
  have "hasClass ''touch-started'' 6 (step b (Dom TouchStart 6 1) fresh)
            \<and> unmarked 6 (run b [Dom TouchStart 6 1, Dom TouchEnd 6 2] fresh)
            \<and> calls (run b [Dom TouchStart 6 1, Dom TouchEnd 6 2] fresh) = calls fresh"
    using other_options_as_empty [of "JNum 5" True b 6 1 fresh 2] b by simp
  moreover have "classes (step b (Dom TouchStart 6 1) fresh) 6 \<subseteq> {''touch-started''}"
    and "calls (step b (Dom TouchStart 6 1) fresh) = []"
    by (cases "apply_fn (onlyIf (settings b)) fresh 6";
        simp add: step_touchstart [OF b] on_touchstart_def class_ops fresh_def)+
  ultimately have "classes (step b (Dom TouchStart 6 1) fresh) 6 = {''touch-started''}"
    and "calls (step b (Dom TouchStart 6 1) fresh) = []"
    by (auto simp add: hasClass_def)
  moreover have "typeof_js (JStr ''tap'') \<noteq> ''function''"
    and "typeof_js (JStr ''tap'') \<noteq> ''object''" by simp_all
  from other_options_as_empty [OF this, of True b 6 1 fresh 2]
  have "tappable True (JStr ''tap'') = tappable True (JObj [])" by blast
  moreover have "typeof_js JUndefined \<noteq> ''function''"
    and "typeof_js JUndefined \<noteq> ''object''" by simp_all
  from other_options_as_empty [OF this, of False b 6 1 fresh 2]
  have "map_sum id listeners (tappable False JUndefined) = Inr []" by blast
  ultimately show ?thesis
    using b by (simp add: play_def)
qed

text \<open>
  The claim C10 as it is stated, for every value that is neither a function nor an
  object, fails at \<^verbatim>\<open>null\<close>: \<^verbatim>\<open>typeof null\<close> is \<^verbatim>\<open>'object'\<close>, the switch takes the
  object branch and reading \<^verbatim>\<open>options.callback\<close> raises a TypeError, where the empty
  object binds.
\<close>

theorem null_options_counterexample:
  "tappable True JNull = Inl TypeError \<and> tappable True (JObj []) \<noteq> Inl TypeError"
  by (simp add: tappable_def read_options_def option_or_def)

section \<open>The two marker classes\<close>










section \<open>A touch that \<^verbatim>\<open>onlyIf\<close> refuses\<close>









section \<open>Quick taps and held touches\<close>













section \<open>A callback that is not a function\<close>


















end
